theory Spec2Isabelle
  imports Main "HOL-Library.AList" "HOL-Library.Multiset" "HOL-Library.Sublist"
begin

section \<open>The session manager of server.js\<close>

text \<open>
  A shallow embedding of the session manager, the dtach bridge and the WebSocket
  message handler of \<^verbatim>\<open>src/server.js\<close>.

  JavaScript strings are lists of code units; the code only concatenates them, takes
  their length, slices them and compares them, so one list element stands for one
  UTF-16 code unit. Session objects live in an explicit heap, because the callbacks
  a pseudo-terminal registers keep a reference to the session object they were
  created for, whatever the session table holds later. Everything the process
  cannot decide on its own is an argument or an event: the random draw of
  \<^verbatim>\<open>generateId\<close>, the outcome of launching dtach, the clock, the hash function,
  the data and exit notifications of a pseudo-terminal, and the timer that
  \<^verbatim>\<open>killDtachSocket\<close> arms. Console logging is not modelled. Calls into the
  ws and node-pty libraries are recorded (\<open>outbox\<close>, \<open>pty_calls\<close>); exceptions
  those libraries or the file system could raise are outside the model, with the
  exception of \<^verbatim>\<open>JSON.parse\<close>, whose failure is a value. Timestamps are integers.
  The heartbeat, the periodic save and the shutdown handler are left out.
\<close>

subsection \<open>Data model\<close>

type_synonym sid = string

datatype status = Detached | Running | Terminated

fun status_str :: "status \<Rightarrow> string" where
  "status_str Detached = ''detached''"
| "status_str Running = ''running''"
| "status_str Terminated = ''terminated''"

text \<open>A session object: the value stored in the \<^verbatim>\<open>sessions\<close> map. \<open>pty\<close> is the handle
  of the pseudo-terminal process or \<^verbatim>\<open>null\<close>; \<open>clients\<close> is a JavaScript \<^verbatim>\<open>Set\<close>,
  which iterates in insertion order.\<close>

record session =
  pty :: "nat option"
  buffer :: string
  status :: status
  name :: string
  createdAt :: int
  clients :: "nat list"

text \<open>The JSON document \<^verbatim>\<open>saveSession\<close> writes and \<^verbatim>\<open>loadSessions\<close> reads.\<close>

record srecord =
  r_id :: sid
  r_name :: string
  r_buffer :: string
  r_status :: string
  r_createdAt :: int

text \<open>One element of the array \<^verbatim>\<open>getSessionList\<close> returns.\<close>

record entry =
  e_id :: sid
  e_name :: string
  e_status :: status
  e_createdAt :: int

datatype smsg =
    SAuthRequired nat
  | SAuthSuccess
  | SAuthFailed
  | SError string
  | SSessions "entry list"
  | SCreated sid
  | SAttached sid string status
  | SHistory sid string
  | SOutput sid string
  | STerminated sid
  | SReactivated sid
  | SPong

text \<open>A parsed client message, by its \<^verbatim>\<open>type\<close>. \<open>CCreate\<close> and \<open>CRename\<close> carry
  \<^verbatim>\<open>msg.name\<close>, which may be absent; \<open>CResize\<close> carries \<^verbatim>\<open>msg.cols\<close> and
  \<^verbatim>\<open>msg.rows\<close>, absent or a number. \<open>COther\<close> is any type the \<^verbatim>\<open>switch\<close> has no
  case for. A \<^verbatim>\<open>msg.sessionId\<close> that is absent behaves as an id no session has.\<close>

datatype cmsg =
    CAuth string
  | CList
  | CCreate "string option"
  | CAttach sid
  | CDetach
  | CInput string
  | CResize "int option" "int option"
  | CTerminate sid
  | CReactivate sid
  | CDelete sid
  | CRename sid "string option"
  | CPing
  | COther

datatype pty_call = Write string | Resize int int | Kill

text \<open>The fields the server keeps on a WebSocket object; \<open>readyOpen\<close> is
  \<^verbatim>\<open>readyState === WebSocket.OPEN\<close>.\<close>

record connection =
  isAuthenticated :: bool
  attachedSession :: "sid option"
  isAlive :: bool
  readyOpen :: bool

text \<open>
  The state of the process and of the two directories it owns.
  \<^item> \<open>heap\<close>, \<open>next_ref\<close>: the session objects and the next free address;
  \<^item> \<open>sessions\<close>: the \<^verbatim>\<open>sessions\<close> map, in insertion order;
  \<^item> \<open>ptys\<close>: the pseudo-terminal processes spawned so far; handle \<open>p\<close> is the
    position, the entry is the session id and the session object its callbacks captured;
  \<^item> \<open>pty_calls\<close>: the calls made on handles;
  \<^item> \<open>files\<close>: the sessions directory, file name and parsed content (\<open>None\<close> when
    \<^verbatim>\<open>JSON.parse\<close> throws on it);
  \<^item> \<open>sockets\<close>: the ids whose socket file exists in the sockets directory;
  \<^item> \<open>timers\<close>: the socket files waiting for the delayed unlink of \<^verbatim>\<open>killDtachSocket\<close>;
  \<^item> \<open>conns\<close>, \<open>wss_clients\<close>: the WebSocket objects and \<^verbatim>\<open>wss.clients\<close>;
  \<^item> \<open>outbox\<close>: the messages passed to \<^verbatim>\<open>send\<close>, in order;
  \<^item> \<open>pinConfig\<close>: what \<^verbatim>\<open>getPinConfig()\<close> returns, hash and length.
\<close>

record world =
  heap :: "nat \<Rightarrow> session"
  next_ref :: nat
  sessions :: "(sid \<times> nat) list"
  ptys :: "(sid \<times> nat) list"
  pty_calls :: "(nat \<times> pty_call) list"
  files :: "(string \<times> srecord option) list"
  sockets :: "sid set"
  timers :: "sid list"
  conns :: "nat \<Rightarrow> connection"
  wss_clients :: "nat list"
  outbox :: "(nat \<times> smsg) list"
  pinConfig :: "(string \<times> nat) option"

text \<open>What a handler takes from outside: \<open>rnd\<close> is \<^verbatim>\<open>Math.random().toString(36)\<close>,
  \<open>spawn_ok\<close> tells whether the dtach launch exits with status zero, \<open>now\<close> is
  \<^verbatim>\<open>Date.now()\<close>, \<open>hashPin\<close> is the SHA-256 hex digest.\<close>

record env =
  rnd :: string
  spawn_ok :: bool
  now :: int
  hashPin :: "string \<Rightarrow> string"

subsection \<open>Helpers\<close>

definition MAX_BUFFER_SIZE :: nat where
  "MAX_BUFFER_SIZE = 100000"

text \<open>\<^verbatim>\<open>s.slice(-n)\<close>: the last \<open>n\<close> code units, the whole string when it is shorter.\<close>

definition slice_last :: "nat \<Rightarrow> 'a list \<Rightarrow> 'a list" where
  "slice_last n xs = drop (length xs - n) xs"

text \<open>\<^verbatim>\<open>Set.prototype.add\<close> and \<^verbatim>\<open>Set.prototype.delete\<close>.\<close>

definition set_add :: "'a \<Rightarrow> 'a list \<Rightarrow> 'a list" where
  "set_add c cs = (if c \<in> set cs then cs else cs @ [c])"

definition set_delete :: "'a \<Rightarrow> 'a list \<Rightarrow> 'a list" where
  "set_delete c cs = removeAll c cs"

text \<open>Decimal rendering of a number inside a template string.\<close>

fun show_nat :: "nat \<Rightarrow> string" where
  "show_nat n =
     (if n < 10 then [''0123456789'' ! n]
      else show_nat (n div 10) @ [''0123456789'' ! (n mod 10)])"

declare show_nat.simps [simp del]

text \<open>Truthiness of \<^verbatim>\<open>ws.attachedSession\<close> and of an optional string: \<^verbatim>\<open>null\<close>,
  \<^verbatim>\<open>undefined\<close> and the empty string are falsy.\<close>

fun truthy_str :: "string option \<Rightarrow> string option" where
  "truthy_str None = None"
| "truthy_str (Some s) = (if s = [] then None else Some s)"

text \<open>Truthiness of an optional number: absent and \<open>0\<close> are falsy.\<close>

fun truthy_num :: "int option \<Rightarrow> bool" where
  "truthy_num None = False"
| "truthy_num (Some n) = (n \<noteq> 0)"

definition upd_session :: "nat \<Rightarrow> (session \<Rightarrow> session) \<Rightarrow> world \<Rightarrow> world" where
  "upd_session r f w = w\<lparr>heap := (heap w)(r := f (heap w r))\<rparr>"

definition new_object :: "session \<Rightarrow> world \<Rightarrow> nat \<times> world" where
  "new_object s w = (next_ref w, w\<lparr>heap := (heap w)(next_ref w := s), next_ref := Suc (next_ref w)\<rparr>)"

definition ws_send :: "nat \<Rightarrow> smsg \<Rightarrow> world \<Rightarrow> world" where
  "ws_send c m w = w\<lparr>outbox := outbox w @ [(c, m)]\<rparr>"

text \<open>\<^verbatim>\<open>cs.forEach(client => { if (client.readyState === WebSocket.OPEN) client.send(m) })\<close>\<close>

fun send_open :: "nat list \<Rightarrow> smsg \<Rightarrow> world \<Rightarrow> world" where
  "send_open [] m w = w"
| "send_open (c # cs) m w =
     send_open cs m (if readyOpen (conns w c) then ws_send c m w else w)"

subsection \<open>Record store and socket directory\<close>

definition generateId :: "string \<Rightarrow> sid" where
  "generateId r = take 8 (drop 2 r)"

definition getSessionFilePath :: "sid \<Rightarrow> string" where
  "getSessionFilePath sessionId = sessionId @ ''.json''"

definition socketExists :: "world \<Rightarrow> sid \<Rightarrow> bool" where
  "socketExists w sessionId = (sessionId \<in> sockets w)"

definition saveSession :: "sid \<Rightarrow> world \<Rightarrow> world" where
  "saveSession sessionId w =
     (case map_of (sessions w) sessionId of
        None \<Rightarrow> w
      | Some ref \<Rightarrow>
          let s = heap w ref;
              data = \<lparr>r_id = sessionId, r_name = name s, r_buffer = buffer s,
                      r_status = status_str (status s), r_createdAt = createdAt s\<rparr>
          in w\<lparr>files := AList.update (getSessionFilePath sessionId) (Some data) (files w)\<rparr>)"

text \<open>The body of the loop of \<^verbatim>\<open>loadSessions\<close> for a file that parsed. On strings
  \<^verbatim>\<open>data.buffer || ''\<close> is the identity.\<close>

definition load_record :: "srecord \<Rightarrow> world \<Rightarrow> world" where
  "load_record data w =
     (let hasSocket = socketExists w (r_id data);
          st = (if r_status data = ''terminated'' then Terminated
                else if hasSocket then Detached
                else Terminated);
          (ref, w1) = new_object \<lparr>pty = None, buffer = r_buffer data, status = st,
                         name = r_name data, createdAt = r_createdAt data, clients = []\<rparr> w
      in w1\<lparr>sessions := AList.update (r_id data) ref (sessions w1)\<rparr>)"

text \<open>The loop itself: a name that does not end in \<^verbatim>\<open>.json\<close> is skipped; a file
  that does not parse throws, and the \<^verbatim>\<open>catch\<close> around the loop ends it there.\<close>

fun load_loop :: "(string \<times> srecord option) list \<Rightarrow> world \<Rightarrow> world" where
  "load_loop [] w = w"
| "load_loop ((file, content) # rest) w =
     (if \<not> suffix ''.json'' file then load_loop rest w
      else case content of
             None \<Rightarrow> w
           | Some data \<Rightarrow> load_loop rest (load_record data w))"

definition loadSessions :: "world \<Rightarrow> world" where
  "loadSessions w = load_loop (files w) w"

subsection \<open>The dtach bridge\<close>

text \<open>\<^verbatim>\<open>createDtachSession\<close>: a launch that succeeds leaves the socket file behind.\<close>

definition createDtachSession :: "world \<Rightarrow> sid \<Rightarrow> bool \<Rightarrow> bool \<times> world" where
  "createDtachSession w sessionId ok =
     (if ok then (True, w\<lparr>sockets := insert sessionId (sockets w)\<rparr>) else (False, w))"

text \<open>\<^verbatim>\<open>getSessionList\<close>: one entry per pair of the map, in the map's order, then
  \<^verbatim>\<open>Array.prototype.sort\<close> with the comparator \<^verbatim>\<open>a.createdAt - b.createdAt\<close>, which
  is a stable sort.\<close>

fun list_entry :: "world \<Rightarrow> sid \<times> nat \<Rightarrow> entry" where
  "list_entry w (sessionId, ref) =
     \<lparr>e_id = sessionId, e_name = name (heap w ref), e_status = status (heap w ref),
      e_createdAt = createdAt (heap w ref)\<rparr>"

definition getSessionList :: "world \<Rightarrow> entry list" where
  "getSessionList w = sort_key e_createdAt (map (list_entry w) (sessions w))"

definition broadcastSessionList :: "world \<Rightarrow> world" where
  "broadcastSessionList w = send_open (wss_clients w) (SSessions (getSessionList w)) w"

text \<open>The callback \<^verbatim>\<open>ptyProcess.onData\<close> registers, for the captured \<open>sessionId\<close> and
  session object \<open>ref\<close>.\<close>

definition onData :: "sid \<Rightarrow> nat \<Rightarrow> string \<Rightarrow> world \<Rightarrow> world" where
  "onData sessionId ref data w =
     (let w1 = upd_session ref (\<lambda>s. s\<lparr>buffer := buffer s @ data\<rparr>) w;
          w2 = (if length (buffer (heap w1 ref)) > MAX_BUFFER_SIZE
                then upd_session ref (\<lambda>s. s\<lparr>buffer := slice_last MAX_BUFFER_SIZE (buffer s)\<rparr>) w1
                else w1)
      in send_open (clients (heap w2 ref)) (SOutput sessionId data) w2)"

text \<open>The callback \<^verbatim>\<open>ptyProcess.onExit\<close> registers.\<close>

definition onExit :: "sid \<Rightarrow> nat \<Rightarrow> world \<Rightarrow> world" where
  "onExit sessionId ref w =
     (let w1 = upd_session ref (\<lambda>s. s\<lparr>pty := None\<rparr>) w;
          w2 = (if socketExists w1 sessionId
                then upd_session ref (\<lambda>s. s\<lparr>status := Detached\<rparr>) w1
                else upd_session ref (\<lambda>s. s\<lparr>status := Terminated\<rparr>) w1)
      in broadcastSessionList (saveSession sessionId w2))"

definition attachToDtach :: "world \<Rightarrow> sid \<Rightarrow> nat \<Rightarrow> bool \<times> world" where
  "attachToDtach w sessionId ref =
     (if \<not> socketExists w sessionId then (False, w)
      else let ptyProcess = length (ptys w);
               w1 = w\<lparr>ptys := ptys w @ [(sessionId, ref)]\<rparr>
           in (True, upd_session ref (\<lambda>s. s\<lparr>pty := Some ptyProcess, status := Running\<rparr>) w1))"

text \<open>Delivery of a data or exit notification of handle \<open>p\<close> to its callbacks.\<close>

definition pty_data :: "nat \<Rightarrow> string \<Rightarrow> world \<Rightarrow> world" where
  "pty_data p data w =
     (if p < length (ptys w) then onData (fst (ptys w ! p)) (snd (ptys w ! p)) data w else w)"

definition pty_exit :: "nat \<Rightarrow> world \<Rightarrow> world" where
  "pty_exit p w =
     (if p < length (ptys w) then onExit (fst (ptys w ! p)) (snd (ptys w ! p)) w else w)"

text \<open>\<^verbatim>\<open>killDtachSocket\<close>: the signals go to other processes; what stays in this
  process is the timer that unlinks the socket file 100 ms later.\<close>

definition killDtachSocket :: "sid \<Rightarrow> world \<Rightarrow> world" where
  "killDtachSocket sessionId w =
     (if \<not> socketExists w sessionId then w
      else w\<lparr>timers := timers w @ [sessionId]\<rparr>)"

text \<open>The oldest pending timer fires.\<close>

definition timer_fire :: "world \<Rightarrow> world" where
  "timer_fire w =
     (case timers w of
        [] \<Rightarrow> w
      | sessionId # rest \<Rightarrow> w\<lparr>timers := rest, sockets := sockets w - {sessionId}\<rparr>)"

subsection \<open>Session manager operations\<close>

definition createSession :: "world \<Rightarrow> string \<Rightarrow> string option \<Rightarrow> bool \<Rightarrow> int \<Rightarrow> sid option \<times> world" where
  "createSession w r nm ok t =
     (let sessionId = generateId r;
          (created, w1) = createDtachSession w sessionId ok
      in if \<not> created then (None, w1)
         else
           let s = \<lparr>pty = None, buffer = [], status = Detached,
                    name = (case truthy_str nm of
                              Some n \<Rightarrow> n
                            | None \<Rightarrow> ''Session '' @ show_nat (length (sessions w1) + 1)),
                    createdAt = t, clients = []\<rparr>;
               (ref, w2) = new_object s w1;
               w3 = w2\<lparr>sessions := AList.update sessionId ref (sessions w2)\<rparr>
           in (Some sessionId, saveSession sessionId w3))"

definition terminateSession :: "world \<Rightarrow> sid \<Rightarrow> bool \<times> world" where
  "terminateSession w sessionId =
     (case map_of (sessions w) sessionId of
        None \<Rightarrow> (False, w)
      | Some ref \<Rightarrow>
          let w1 = (case pty (heap w ref) of
                      Some p \<Rightarrow> upd_session ref (\<lambda>s. s\<lparr>pty := None\<rparr>)
                                  (w\<lparr>pty_calls := pty_calls w @ [(p, Kill)]\<rparr>)
                    | None \<Rightarrow> w);
              w2 = killDtachSocket sessionId w1;
              w3 = upd_session ref (\<lambda>s. s\<lparr>status := Terminated\<rparr>) w2;
              w4 = saveSession sessionId w3
          in (True, send_open (clients (heap w4 ref)) (STerminated sessionId) w4))"

definition reactivateSession :: "world \<Rightarrow> sid \<Rightarrow> bool \<Rightarrow> bool \<times> world" where
  "reactivateSession w sessionId ok =
     (case map_of (sessions w) sessionId of
        None \<Rightarrow> (False, w)
      | Some ref \<Rightarrow>
          if status (heap w ref) \<noteq> Terminated then (False, w)
          else
            let (created, w1) = createDtachSession w sessionId ok
            in if \<not> created then (False, w1)
               else
                 let w2 = upd_session ref (\<lambda>s. s\<lparr>status := Detached\<rparr>) w1;
                     w3 = saveSession sessionId w2
                 in (True, send_open (clients (heap w3 ref)) (SReactivated sessionId) w3))"

definition deleteSession :: "world \<Rightarrow> sid \<Rightarrow> bool \<times> world" where
  "deleteSession w sessionId =
     (case map_of (sessions w) sessionId of
        None \<Rightarrow> (False, w)
      | Some ref \<Rightarrow>
          let w1 = (case pty (heap w ref) of
                      Some p \<Rightarrow> w\<lparr>pty_calls := pty_calls w @ [(p, Kill)]\<rparr>
                    | None \<Rightarrow> w);
              w2 = killDtachSocket sessionId w1;
              w3 = w2\<lparr>sessions := AList.delete sessionId (sessions w2)\<rparr>;
              w4 = w3\<lparr>files := AList.delete (getSessionFilePath sessionId) (files w3)\<rparr>
          in (True, w4\<lparr>sockets := sockets w4 - {sessionId}\<rparr>))"

subsection \<open>The client session protocol\<close>

text \<open>The \<^verbatim>\<open>connection\<close> callback for a new WebSocket \<open>c\<close>.\<close>

definition on_connection :: "nat \<Rightarrow> world \<Rightarrow> world" where
  "on_connection c w =
     (let w1 = w\<lparr>wss_clients := set_add c (wss_clients w)\<rparr>
      in case pinConfig w1 of
           Some (h, len) \<Rightarrow>
             ws_send c (SAuthRequired len)
               (w1\<lparr>conns := (conns w1)(c := \<lparr>isAuthenticated = False, attachedSession = None,
                                              isAlive = True, readyOpen = True\<rparr>)\<rparr>)
         | None \<Rightarrow>
             (let w2 = w1\<lparr>conns := (conns w1)(c := \<lparr>isAuthenticated = True, attachedSession = None,
                                                    isAlive = True, readyOpen = True\<rparr>)\<rparr>
              in ws_send c (SSessions (getSessionList w2)) w2))"

definition auth_handler :: "env \<Rightarrow> nat \<Rightarrow> string \<Rightarrow> world \<Rightarrow> world" where
  "auth_handler e c pin w =
     (let authenticated = w\<lparr>conns := (conns w)(c := (conns w c)\<lparr>isAuthenticated := True\<rparr>)\<rparr>
      in case pinConfig w of
           None \<Rightarrow>
             ws_send c (SSessions (getSessionList authenticated))
               (ws_send c SAuthSuccess authenticated)
         | Some (h, len) \<Rightarrow>
             if hashPin e pin = h
             then ws_send c (SSessions (getSessionList authenticated))
                    (ws_send c SAuthSuccess authenticated)
             else ws_send c SAuthFailed w)"

definition create_handler :: "env \<Rightarrow> nat \<Rightarrow> string option \<Rightarrow> world \<Rightarrow> world" where
  "create_handler e c nm w =
     (let (sessionId, w1) = createSession w (rnd e) nm (spawn_ok e) (now e)
      in case truthy_str sessionId of
           Some i \<Rightarrow> broadcastSessionList (ws_send c (SCreated i) w1)
         | None \<Rightarrow> ws_send c (SError ''Failed to create session'') w1)"

definition attach_handler :: "nat \<Rightarrow> sid \<Rightarrow> world \<Rightarrow> world" where
  "attach_handler c sessionId w =
     (case map_of (sessions w) sessionId of
        None \<Rightarrow> ws_send c (SError ''Session not found'') w
      | Some ref \<Rightarrow>
          let w1 = (case truthy_str (attachedSession (conns w c)) of
                      Some prev \<Rightarrow>
                        (case map_of (sessions w) prev of
                           Some pref \<Rightarrow> upd_session pref (\<lambda>s. s\<lparr>clients := set_delete c (clients s)\<rparr>) w
                         | None \<Rightarrow> w)
                    | None \<Rightarrow> w);
              w2 = (if pty (heap w1 ref) = None \<and> status (heap w1 ref) \<noteq> Terminated
                    then (if socketExists w1 sessionId
                          then broadcastSessionList (snd (attachToDtach w1 sessionId ref))
                          else broadcastSessionList
                                 (saveSession sessionId
                                    (upd_session ref (\<lambda>s. s\<lparr>status := Terminated\<rparr>) w1)))
                    else w1);
              w3 = w2\<lparr>conns := (conns w2)(c := (conns w2 c)\<lparr>attachedSession := Some sessionId\<rparr>)\<rparr>;
              w4 = upd_session ref (\<lambda>s. s\<lparr>clients := set_add c (clients s)\<rparr>) w3;
              w5 = ws_send c (SAttached sessionId (name (heap w4 ref)) (status (heap w4 ref))) w4
          in if buffer (heap w5 ref) \<noteq> []
             then ws_send c (SHistory sessionId (buffer (heap w5 ref))) w5
             else w5)"

definition detach_handler :: "nat \<Rightarrow> world \<Rightarrow> world" where
  "detach_handler c w =
     (case truthy_str (attachedSession (conns w c)) of
        Some a \<Rightarrow>
          (let w1 = (case map_of (sessions w) a of
                       Some ref \<Rightarrow> upd_session ref (\<lambda>s. s\<lparr>clients := set_delete c (clients s)\<rparr>) w
                     | None \<Rightarrow> w)
           in w1\<lparr>conns := (conns w1)(c := (conns w1 c)\<lparr>attachedSession := None\<rparr>)\<rparr>)
      | None \<Rightarrow> w)"

definition input_handler :: "nat \<Rightarrow> string \<Rightarrow> world \<Rightarrow> world" where
  "input_handler c data w =
     (case truthy_str (attachedSession (conns w c)) of
        None \<Rightarrow> w
      | Some a \<Rightarrow>
          (case map_of (sessions w) a of
             None \<Rightarrow> w
           | Some ref \<Rightarrow>
               (case pty (heap w ref) of
                  None \<Rightarrow> w
                | Some p \<Rightarrow>
                    if status (heap w ref) = Running
                    then w\<lparr>pty_calls := pty_calls w @ [(p, Write data)]\<rparr>
                    else w)))"

definition resize_handler :: "nat \<Rightarrow> int option \<Rightarrow> int option \<Rightarrow> world \<Rightarrow> world" where
  "resize_handler c cols rows w =
     (case truthy_str (attachedSession (conns w c)) of
        None \<Rightarrow> w
      | Some a \<Rightarrow>
          (case map_of (sessions w) a of
             None \<Rightarrow> w
           | Some ref \<Rightarrow>
               (case pty (heap w ref) of
                  None \<Rightarrow> w
                | Some p \<Rightarrow>
                    if truthy_num cols \<and> truthy_num rows
                    then w\<lparr>pty_calls := pty_calls w @ [(p, Resize (the cols) (the rows))]\<rparr>
                    else w)))"

definition terminate_handler :: "sid \<Rightarrow> world \<Rightarrow> world" where
  "terminate_handler sessionId w =
     (let (done, w1) = terminateSession w sessionId
      in if done then broadcastSessionList w1 else w1)"

definition reactivate_handler :: "env \<Rightarrow> sid \<Rightarrow> world \<Rightarrow> world" where
  "reactivate_handler e sessionId w =
     (let (done, w1) = reactivateSession w sessionId (spawn_ok e)
      in if done then broadcastSessionList w1 else w1)"

definition delete_handler :: "sid \<Rightarrow> world \<Rightarrow> world" where
  "delete_handler sessionId w =
     (let (done, w1) = deleteSession w sessionId
      in if done then broadcastSessionList w1 else w1)"

definition rename_handler :: "sid \<Rightarrow> string option \<Rightarrow> world \<Rightarrow> world" where
  "rename_handler sessionId nm w =
     (case map_of (sessions w) sessionId of
        None \<Rightarrow> w
      | Some ref \<Rightarrow>
          (case truthy_str nm of
             None \<Rightarrow> w
           | Some n \<Rightarrow>
               broadcastSessionList
                 (saveSession sessionId (upd_session ref (\<lambda>s. s\<lparr>name := n\<rparr>) w))))"

definition ping_handler :: "nat \<Rightarrow> world \<Rightarrow> world" where
  "ping_handler c w =
     ws_send c SPong (w\<lparr>conns := (conns w)(c := (conns w c)\<lparr>isAlive := True\<rparr>)\<rparr>)"

text \<open>The \<^verbatim>\<open>switch\<close> on \<^verbatim>\<open>msg.type\<close>, reached by an authenticated connection.\<close>

fun dispatch :: "env \<Rightarrow> nat \<Rightarrow> cmsg \<Rightarrow> world \<Rightarrow> world" where
  "dispatch e c CList w = ws_send c (SSessions (getSessionList w)) w"
| "dispatch e c (CCreate nm) w = create_handler e c nm w"
| "dispatch e c (CAttach sessionId) w = attach_handler c sessionId w"
| "dispatch e c CDetach w = detach_handler c w"
| "dispatch e c (CInput data) w = input_handler c data w"
| "dispatch e c (CResize cols rows) w = resize_handler c cols rows w"
| "dispatch e c (CTerminate sessionId) w = terminate_handler sessionId w"
| "dispatch e c (CReactivate sessionId) w = reactivate_handler e sessionId w"
| "dispatch e c (CDelete sessionId) w = delete_handler sessionId w"
| "dispatch e c (CRename sessionId nm) w = rename_handler sessionId nm w"
| "dispatch e c CPing w = ping_handler c w"
| "dispatch e c (CAuth pin) w = w"
| "dispatch e c COther w = w"

text \<open>The \<^verbatim>\<open>message\<close> callback of connection \<open>c\<close>. The payload is \<open>None\<close> when
  \<^verbatim>\<open>JSON.parse\<close> throws on it: the \<^verbatim>\<open>catch\<close> logs and nothing else happens.\<close>

definition on_message :: "env \<Rightarrow> nat \<Rightarrow> cmsg option \<Rightarrow> world \<Rightarrow> world" where
  "on_message e c payload w =
     (case payload of
        None \<Rightarrow> w
      | Some msg \<Rightarrow>
          (case msg of
             CAuth pin \<Rightarrow> auth_handler e c pin w
           | _ \<Rightarrow>
               if \<not> isAuthenticated (conns w c)
               then ws_send c (SError ''Not authenticated'') w
               else dispatch e c msg w))"

text \<open>The \<^verbatim>\<open>close\<close> callback; the ws library takes the socket out of \<^verbatim>\<open>wss.clients\<close>.\<close>

definition on_close :: "nat \<Rightarrow> world \<Rightarrow> world" where
  "on_close c w =
     (let w1 = (case truthy_str (attachedSession (conns w c)) of
                  Some a \<Rightarrow>
                    (case map_of (sessions w) a of
                       Some ref \<Rightarrow> upd_session ref (\<lambda>s. s\<lparr>clients := set_delete c (clients s)\<rparr>) w
                     | None \<Rightarrow> w)
                | None \<Rightarrow> w)
      in w1\<lparr>conns := (conns w1)(c := (conns w1 c)\<lparr>readyOpen := False\<rparr>),
             wss_clients := set_delete c (wss_clients w1)\<rparr>)"

subsection \<open>An invariant of the loading loop\<close>

text \<open>The session table binds the id of record \<open>r\<close> to an object built from \<open>r\<close>,
  its status decided by the stored status and by the socket directory \<open>socks\<close>.\<close>

definition loaded_as :: "sid set \<Rightarrow> srecord \<Rightarrow> world \<Rightarrow> bool" where
  "loaded_as socks r w \<longleftrightarrow>
     (\<exists>ref. map_of (sessions w) (r_id r) = Some ref \<and> ref < next_ref w \<and>
        status (heap w ref) =
          (if r_status r = ''terminated'' then Terminated
           else if r_id r \<in> socks then Detached else Terminated) \<and>
        buffer (heap w ref) = r_buffer r \<and> name (heap w ref) = r_name r \<and>
        createdAt (heap w ref) = r_createdAt r \<and> pty (heap w ref) = None)"

subsection \<open>Example states\<close>

text \<open>Concrete states for the examples below. \<open>w_start\<close> is a process that has just
  started on empty directories with no PIN.\<close>

definition blank_session :: session where
  "blank_session = \<lparr>pty = None, buffer = [], status = Terminated, name = [],
                     createdAt = 0, clients = []\<rparr>"

definition closed_connection :: connection where
  "closed_connection = \<lparr>isAuthenticated = False, attachedSession = None,
                         isAlive = False, readyOpen = False\<rparr>"

definition w_start :: world where
  "w_start =
     \<lparr>heap = (\<lambda>_. blank_session), next_ref = 0, sessions = [], ptys = [], pty_calls = [],
      files = [], sockets = {}, timers = [], conns = (\<lambda>_. closed_connection),
      wss_clients = [], outbox = [], pinConfig = None\<rparr>"

definition e_ex :: env where
  "e_ex = \<lparr>rnd = ''0.k3x9ab12zz'', spawn_ok = True, now = 1000, hashPin = (\<lambda>p. p)\<rparr>"

text \<open>\<open>w_created\<close>: connection 7 has connected and sent \<^verbatim>\<open>create\<close>; the random draw was
  \<^verbatim>\<open>0.k3x9ab12zz\<close>, the clock showed 1000. The log of sent messages is left empty.\<close>

definition w_created :: world where
  "w_created =
     \<lparr>heap = (\<lambda>_. blank_session)
        (0 := \<lparr>pty = None, buffer = [], status = Detached, name = ''Session 1'',
               createdAt = 1000, clients = []\<rparr>),
      next_ref = 1,
      sessions = [(''k3x9ab12'', 0)],
      ptys = [],
      pty_calls = [],
      files = [(''k3x9ab12.json'',
                Some \<lparr>r_id = ''k3x9ab12'', r_name = ''Session 1'', r_buffer = [],
                      r_status = ''detached'', r_createdAt = 1000\<rparr>)],
      sockets = {''k3x9ab12''},
      timers = [],
      conns = (\<lambda>_. closed_connection)
        (7 := \<lparr>isAuthenticated = True, attachedSession = None,
               isAlive = True, readyOpen = True\<rparr>),
      wss_clients = [7],
      outbox = [],
      pinConfig = None\<rparr>"

text \<open>\<open>w_running\<close>: connection 7 has then sent \<^verbatim>\<open>attach\<close>, and the pseudo-terminal
  has delivered the output \<^verbatim>\<open>abc\<close>.\<close>

definition w_running :: world where
  "w_running =
     \<lparr>heap = (\<lambda>_. blank_session)
        (0 := \<lparr>pty = Some 0, buffer = ''abc'', status = Running, name = ''Session 1'',
               createdAt = 1000, clients = [7]\<rparr>),
      next_ref = 1,
      sessions = [(''k3x9ab12'', 0)],
      ptys = [(''k3x9ab12'', 0)],
      pty_calls = [],
      files = [(''k3x9ab12.json'',
                Some \<lparr>r_id = ''k3x9ab12'', r_name = ''Session 1'', r_buffer = [],
                      r_status = ''detached'', r_createdAt = 1000\<rparr>)],
      sockets = {''k3x9ab12''},
      timers = [],
      conns = (\<lambda>_. closed_connection)
        (7 := \<lparr>isAuthenticated = True, attachedSession = Some ''k3x9ab12'',
               isAlive = True, readyOpen = True\<rparr>),
      wss_clients = [7],
      outbox = [],
      pinConfig = None\<rparr>"

text \<open>\<open>w_gone\<close>: a session named \<^verbatim>\<open>build\<close> that was terminated; the delayed unlink
  has removed its socket file.\<close>

definition w_gone :: world where
  "w_gone =
     \<lparr>heap = (\<lambda>_. blank_session)
        (0 := \<lparr>pty = None, buffer = ''abc'', status = Terminated, name = ''build'',
               createdAt = 1000, clients = []\<rparr>),
      next_ref = 1,
      sessions = [(''k3x9ab12'', 0)],
      ptys = [],
      pty_calls = [],
      files = [(''k3x9ab12.json'',
                Some \<lparr>r_id = ''k3x9ab12'', r_name = ''build'', r_buffer = ''abc'',
                      r_status = ''terminated'', r_createdAt = 1000\<rparr>)],
      sockets = {},
      timers = [],
      conns = (\<lambda>_. closed_connection),
      wss_clients = [],
      outbox = [],
      pinConfig = None\<rparr>"

text \<open>\<open>w_locked\<close>: a PIN is configured and connection 7 has not authenticated.\<close>

definition w_locked :: world where
  "w_locked =
     w_gone\<lparr>conns := (\<lambda>_. closed_connection)
               (7 := \<lparr>isAuthenticated = False, attachedSession = None,
                      isAlive = True, readyOpen = True\<rparr>),
            wss_clients := [7],
            pinConfig := Some (''1234'', 4)\<rparr>"

text \<open>\<open>w_disk\<close>: a process about to run \<^verbatim>\<open>loadSessions\<close>. The directory holds a
  record stored as detached whose socket is gone, one stored as detached whose socket
  exists, one stored as terminated whose socket exists, and a file that is not a record.\<close>

definition w_disk :: world where
  "w_disk =
     w_start\<lparr>files :=
         [(''aaaa1111.json'',
           Some \<lparr>r_id = ''aaaa1111'', r_name = ''one'', r_buffer = ''x'',
                 r_status = ''detached'', r_createdAt = 10\<rparr>),
          (''notes.txt'', None),
          (''bbbb2222.json'',
           Some \<lparr>r_id = ''bbbb2222'', r_name = ''two'', r_buffer = [],
                 r_status = ''running'', r_createdAt = 20\<rparr>),
          (''cccc3333.json'',
           Some \<lparr>r_id = ''cccc3333'', r_name = ''three'', r_buffer = [],
                 r_status = ''terminated'', r_createdAt = 30\<rparr>)],
       sockets := {''bbbb2222'', ''cccc3333''}\<rparr>"

text \<open>\<open>w_disk_broken\<close>: the directory lists a file that does not parse before the
  record of a detached session whose socket is gone. \<open>w_disk_copy\<close>: the directory
  holds a second, older file with the record of the same id, listed after the first,
  and the socket of the id exists.\<close>

definition w_disk_broken :: world where
  "w_disk_broken =
     w_start\<lparr>files :=
         [(''0000bad0.json'', None),
          (''aaaa1111.json'',
           Some \<lparr>r_id = ''aaaa1111'', r_name = ''one'', r_buffer = ''x'',
                 r_status = ''detached'', r_createdAt = 10\<rparr>)]\<rparr>"

definition w_disk_copy :: world where
  "w_disk_copy =
     w_start\<lparr>files :=
         [(''aaaa1111.json'',
           Some \<lparr>r_id = ''aaaa1111'', r_name = ''one'', r_buffer = ''x'',
                 r_status = ''detached'', r_createdAt = 10\<rparr>),
          (''aaaa1111.old.json'',
           Some \<lparr>r_id = ''aaaa1111'', r_name = ''one'', r_buffer = [],
                 r_status = ''terminated'', r_createdAt = 10\<rparr>)],
       sockets := {''aaaa1111''}\<rparr>"

text \<open>\<open>w_exited\<close>: the running session of \<open>w_running\<close> has been terminated, the killed
  handle has reported its exit, and the delayed unlink has run.\<close>

definition w_exited :: world where
  "w_exited = timer_fire (pty_exit 0 (snd (terminateSession w_running ''k3x9ab12'')))"

section \<open>Properties\<close>

subsection \<open>Auxiliary facts\<close>

lemma send_open_eq:
  "send_open cs m w =
     w\<lparr>outbox := outbox w @ map (\<lambda>c. (c, m)) (filter (\<lambda>c. readyOpen (conns w c)) cs)\<rparr>"
  by (induction cs arbitrary: w) (simp_all add: ws_send_def)

lemma saveSession_proj [simp]:
  "heap (saveSession i w) = heap w" "sessions (saveSession i w) = sessions w"
  "outbox (saveSession i w) = outbox w" "conns (saveSession i w) = conns w"
  "sockets (saveSession i w) = sockets w" "ptys (saveSession i w) = ptys w"
  "pty_calls (saveSession i w) = pty_calls w" "timers (saveSession i w) = timers w"
  "wss_clients (saveSession i w) = wss_clients w" "next_ref (saveSession i w) = next_ref w"
  "pinConfig (saveSession i w) = pinConfig w"
  by (simp_all add: saveSession_def Let_def split: option.splits)

lemma broadcast_proj [simp]:
  "heap (broadcastSessionList w) = heap w" "sessions (broadcastSessionList w) = sessions w"
  "conns (broadcastSessionList w) = conns w" "sockets (broadcastSessionList w) = sockets w"
  "ptys (broadcastSessionList w) = ptys w" "pty_calls (broadcastSessionList w) = pty_calls w"
  "timers (broadcastSessionList w) = timers w" "files (broadcastSessionList w) = files w"
  "wss_clients (broadcastSessionList w) = wss_clients w"
  "next_ref (broadcastSessionList w) = next_ref w"
  "pinConfig (broadcastSessionList w) = pinConfig w"
  by (simp_all add: broadcastSessionList_def send_open_eq)

lemma broadcast_outbox:
  "outbox (broadcastSessionList w) =
     outbox w @ map (\<lambda>c. (c, SSessions (getSessionList w)))
                  (filter (\<lambda>c. readyOpen (conns w c)) (wss_clients w))"
  by (simp add: broadcastSessionList_def send_open_eq)

lemma set_add_mem [simp]: "c \<in> set (set_add c cs)"
  by (simp add: set_add_def)

subsection \<open>The output buffer\<close>

lemma slice_last_length: "length (slice_last n xs) \<le> n"
  by (simp add: slice_last_def)

lemma slice_last_append: "slice_last n (slice_last n xs @ ys) = slice_last n (xs @ ys)"
proof (cases "length xs \<le> n")
  case True
  then show ?thesis by (simp add: slice_last_def)
next
  case False
  then have "length xs + length ys - (length xs - n + n) + (length xs - n)
               = length xs + length ys - n"
    by arith
  with False show ?thesis by (simp add: slice_last_def)
qed

lemma onData_proj [simp]:
  "sessions (onData i ref d w) = sessions w" "sockets (onData i ref d w) = sockets w"
  "conns (onData i ref d w) = conns w" "timers (onData i ref d w) = timers w"
  "ptys (onData i ref d w) = ptys w" "files (onData i ref d w) = files w"
  "pty (heap (onData i ref d w) x) = pty (heap w x)"
  "status (heap (onData i ref d w) x) = status (heap w x)"
  "name (heap (onData i ref d w) x) = name (heap w x)"
  "clients (heap (onData i ref d w) x) = clients (heap w x)"
  by (simp_all add: onData_def send_open_eq upd_session_def Let_def)

lemma buffer_onData:
  "buffer (heap (onData i ref d w) ref) = slice_last MAX_BUFFER_SIZE (buffer (heap w ref) @ d)"
  by (simp add: onData_def send_open_eq upd_session_def Let_def slice_last_def)

lemma buffer_fold_onData:
  "buffer (heap w ref) = slice_last MAX_BUFFER_SIZE written \<Longrightarrow>
   buffer (heap (fold (onData i ref) ds w) ref) = slice_last MAX_BUFFER_SIZE (written @ concat ds)"
proof (induction ds arbitrary: w written)
  case Nil
  then show ?case by simp
next
  case (Cons d ds)
  have "buffer (heap (onData i ref d w) ref) = slice_last MAX_BUFFER_SIZE (written @ d)"
    by (simp add: buffer_onData Cons.prems slice_last_append)
  from Cons.IH [OF this] show ?case by simp
qed

text \<open>
  Claim C3. Let the buffer of a session object hold the last \<open>MAX_BUFFER_SIZE\<close> code units
  of everything written to it so far (\<open>written\<close>; empty for a session that
  \<^verbatim>\<open>createSession\<close> has just built). After any sequence \<open>ds\<close> of data events delivered to
  its \<^verbatim>\<open>onData\<close> callback, the buffer is at most \<open>MAX_BUFFER_SIZE\<close> long and holds the
  last \<open>MAX_BUFFER_SIZE\<close> code units of everything written, the events included.
\<close>
theorem output_buffer_is_bounded_suffix:
  assumes "buffer (heap w ref) = slice_last MAX_BUFFER_SIZE written"
  shows "length (buffer (heap (fold (onData i ref) ds w) ref)) \<le> MAX_BUFFER_SIZE \<and>
         buffer (heap (fold (onData i ref) ds w) ref) =
           slice_last MAX_BUFFER_SIZE (written @ concat ds)"
  using buffer_fold_onData [OF assms, of i ds] by (simp add: slice_last_length)

theorem output_buffer_is_bounded_suffix_witness:
  "buffer (heap w_created 0) = slice_last MAX_BUFFER_SIZE [] \<and>
   length (buffer (heap (fold (onData ''k3x9ab12'' 0) [''ab'', ''c'', replicate 99999 (CHR ''x'')]
                           w_created) 0)) \<le> MAX_BUFFER_SIZE \<and>
   buffer (heap (fold (onData ''k3x9ab12'' 0) [''ab'', ''c'', replicate 99999 (CHR ''x'')]
                   w_created) 0)
     = ''c'' @ replicate 99999 (CHR ''x'')"
proof -
  have h: "buffer (heap w_created 0) = slice_last MAX_BUFFER_SIZE []"
    by (simp add: w_created_def slice_last_def)
  show ?thesis
    using h output_buffer_is_bounded_suffix
            [OF h, of "''k3x9ab12''" "[''ab'', ''c'', replicate 99999 (CHR ''x'')]"]
    by (simp add: slice_last_def MAX_BUFFER_SIZE_def)
qed

subsection \<open>Startup reconciliation\<close>

lemma load_record_sockets [simp]: "sockets (load_record d w) = sockets w"
  by (simp add: load_record_def new_object_def Let_def)

lemma load_record_establishes: "loaded_as (sockets w) r (load_record r w)"
  by (simp add: loaded_as_def load_record_def new_object_def Let_def socketExists_def update_conv')

lemma load_record_preserves:
  assumes "loaded_as S r w" and "r_id d \<noteq> r_id r"
  shows "loaded_as S r (load_record d w)"
proof -
  from assms(1) obtain ref where ref: "map_of (sessions w) (r_id r) = Some ref" "ref < next_ref w"
    and st: "status (heap w ref) =
          (if r_status r = ''terminated'' then Terminated
           else if r_id r \<in> S then Detached else Terminated)"
    and rest: "buffer (heap w ref) = r_buffer r" "name (heap w ref) = r_name r"
        "createdAt (heap w ref) = r_createdAt r" "pty (heap w ref) = None"
    unfolding loaded_as_def by blast
  have m: "map_of (sessions (load_record d w)) (r_id r) = Some ref"
    using ref(1) assms(2) by (simp add: load_record_def new_object_def Let_def update_conv')
  have h: "heap (load_record d w) ref = heap w ref"
    using ref(2) by (simp add: load_record_def new_object_def Let_def)
  have n: "ref < next_ref (load_record d w)"
    using ref(2) by (simp add: load_record_def new_object_def Let_def)
  show ?thesis
    unfolding loaded_as_def using m h n st rest by simp
qed

lemma load_loop_sockets [simp]: "sockets (load_loop fs w) = sockets w"
  by (induction fs w rule: load_loop.induct) (simp_all split: option.splits)

lemma load_loop_append:
  "\<forall>(f, c) \<in> set pre. suffix ''.json'' f \<longrightarrow> c \<noteq> None \<Longrightarrow>
   load_loop (pre @ rest) w = load_loop rest (load_loop pre w)"
  by (induction pre w rule: load_loop.induct) (auto split: option.splits)

lemma load_loop_keeps:
  "loaded_as S r w \<Longrightarrow>
   \<forall>(f, c) \<in> set post. suffix ''.json'' f \<longrightarrow> (\<forall>d. c = Some d \<longrightarrow> r_id d \<noteq> r_id r) \<Longrightarrow>
   loaded_as S r (load_loop post w)"
proof (induction post w rule: load_loop.induct)
  case (1 w)
  then show ?case by simp
next
  case (2 fname content rest w)
  show ?case
  proof (cases "suffix ''.json'' fname")
    case False
    with 2 show ?thesis by simp
  next
    case True
    show ?thesis
    proof (cases content)
      case None
      with True "2.prems"(1) show ?thesis by simp
    next
      case (Some d)
      with True "2.prems"(2) have "r_id d \<noteq> r_id r" by simp
      with "2.prems"(1) have "loaded_as S r (load_record d w)"
        by (rule load_record_preserves)
      with "2.IH"(2) [OF _ Some] True "2.prems"(2) Some show ?thesis by simp
    qed
  qed
qed

text \<open>
  \<^verbatim>\<open>loadSessions\<close> reads the directory in one \<^verbatim>\<open>try\<close>: in \<open>w_disk_broken\<close> the file
  listed first does not parse, the loop ends there, and the detached record listed after
  it, whose socket is gone, is not in the table at all. In \<open>w_disk_copy\<close> two files
  hold a record of the same id; the table keeps what the file read last says, so the
  record stored as detached, whose socket exists, is in the table as Terminated.
\<close>

theorem startup_reconciliation_counterexample:
  "(''aaaa1111.json'',
      Some \<lparr>r_id = ''aaaa1111'', r_name = ''one'', r_buffer = ''x'',
            r_status = ''detached'', r_createdAt = 10\<rparr>) \<in> set (files w_disk_broken) \<and>
   ''aaaa1111'' \<notin> sockets w_disk_broken \<and>
   map_of (sessions (loadSessions w_disk_broken)) ''aaaa1111'' = None \<and>
   (''aaaa1111.json'',
      Some \<lparr>r_id = ''aaaa1111'', r_name = ''one'', r_buffer = ''x'',
            r_status = ''detached'', r_createdAt = 10\<rparr>) \<in> set (files w_disk_copy) \<and>
   ''aaaa1111'' \<in> sockets w_disk_copy \<and>
   map_of (sessions (loadSessions w_disk_copy)) ''aaaa1111'' = Some 1 \<and>
   status (heap (loadSessions w_disk_copy) 1) = Terminated"
  by (simp add: w_disk_broken_def w_disk_copy_def w_start_def loadSessions_def load_record_def
        new_object_def socketExists_def suffix_def Let_def)

text \<open>
  Claim C4, amended. Take a record \<open>r\<close> of the sessions directory such that every
  \<^verbatim>\<open>.json\<close> file listed before it parses and no file listed after it holds a record
  with the same id. After \<^verbatim>\<open>loadSessions\<close> the table binds the id of \<open>r\<close> to a session
  whose status is Terminated when the stored status is \<^verbatim>\<open>terminated\<close>, whatever the
  socket directory holds; otherwise Detached when the socket file of the id exists,
  and Terminated when it does not.
\<close>

theorem startup_reconciliation:
  assumes "files w = pre @ (f, Some r) # post" and "suffix ''.json'' f"
    and "\<forall>(f', c) \<in> set pre. suffix ''.json'' f' \<longrightarrow> c \<noteq> None"
    and "\<forall>(f', c) \<in> set post. suffix ''.json'' f' \<longrightarrow> (\<forall>d. c = Some d \<longrightarrow> r_id d \<noteq> r_id r)"
  shows "\<exists>ref. map_of (sessions (loadSessions w)) (r_id r) = Some ref \<and>
           status (heap (loadSessions w) ref) =
             (if r_status r = ''terminated'' then Terminated
              else if r_id r \<in> sockets w then Detached else Terminated)"
proof -
  let ?w1 = "load_loop pre w"
  have "loadSessions w = load_loop ((f, Some r) # post) ?w1"
    by (simp add: loadSessions_def assms(1) load_loop_append [OF assms(3)])
  also have "\<dots> = load_loop post (load_record r ?w1)"
    using assms(2) by simp
  finally have eq: "loadSessions w = load_loop post (load_record r ?w1)" .
  have "loaded_as (sockets w) r (load_record r ?w1)"
    using load_record_establishes [of ?w1 r] by simp
  then have "loaded_as (sockets w) r (loadSessions w)"
    unfolding eq by (rule load_loop_keeps) (rule assms(4))
  then show ?thesis
    unfolding loaded_as_def by blast
qed

theorem startup_reconciliation_witness:
  "files w_disk =
     [(''aaaa1111.json'',
       Some \<lparr>r_id = ''aaaa1111'', r_name = ''one'', r_buffer = ''x'',
             r_status = ''detached'', r_createdAt = 10\<rparr>),
      (''notes.txt'', None)] @
     (''bbbb2222.json'',
       Some \<lparr>r_id = ''bbbb2222'', r_name = ''two'', r_buffer = [],
             r_status = ''running'', r_createdAt = 20\<rparr>) #
     [(''cccc3333.json'',
       Some \<lparr>r_id = ''cccc3333'', r_name = ''three'', r_buffer = [],
             r_status = ''terminated'', r_createdAt = 30\<rparr>)] \<and>
   suffix ''.json'' ''bbbb2222.json'' \<and> ''bbbb2222'' \<in> sockets w_disk \<and>
   (\<exists>ref. map_of (sessions (loadSessions w_disk)) ''bbbb2222'' = Some ref \<and>
           status (heap (loadSessions w_disk) ref) = Detached)"
proof -
  let ?r = "\<lparr>r_id = ''bbbb2222'', r_name = ''two'', r_buffer = [],
             r_status = ''running'', r_createdAt = 20\<rparr>"
  let ?pre = "[(''aaaa1111.json'',
       Some \<lparr>r_id = ''aaaa1111'', r_name = ''one'', r_buffer = ''x'',
             r_status = ''detached'', r_createdAt = 10\<rparr>),
      (''notes.txt'', None)]"
  let ?post = "[(''cccc3333.json'',
       Some \<lparr>r_id = ''cccc3333'', r_name = ''three'', r_buffer = [],
             r_status = ''terminated'', r_createdAt = 30\<rparr>)]"
  have a: "files w_disk = ?pre @ (''bbbb2222.json'', Some ?r) # ?post"
    by (simp add: w_disk_def w_start_def)
  have b: "suffix ''.json'' ''bbbb2222.json''"
    by (simp add: suffix_def)
  have c: "\<forall>(f', c) \<in> set ?pre. suffix ''.json'' f' \<longrightarrow> c \<noteq> None"
    by (simp add: suffix_def)
  have d: "\<forall>(f', c) \<in> set ?post. suffix ''.json'' f' \<longrightarrow> (\<forall>d. c = Some d \<longrightarrow> r_id d \<noteq> r_id ?r)"
    by simp
  have e: "''bbbb2222'' \<in> sockets w_disk"
    by (simp add: w_disk_def w_start_def)
  show ?thesis
    using a b e startup_reconciliation [OF a b c d] by simp
qed

subsection \<open>Authentication gate and unknown ids\<close>

text \<open>
  Claim C5. A connection that has not authenticated (which is how a connection starts
  when a PIN is configured) sends a message that parses and whose type is not
  \<^verbatim>\<open>auth\<close>: the server sends that connection the error \<^verbatim>\<open>Not authenticated\<close>, and
  nothing else changes: the session table, the session objects, the record files, the
  sockets and the pseudo-terminals are what they were.
\<close>
theorem unauthenticated_rejected:
  assumes "\<not> isAuthenticated (conns w c)" and "\<forall>pin. msg \<noteq> CAuth pin"
  shows "on_message e c (Some msg) w = w\<lparr>outbox := outbox w @ [(c, SError ''Not authenticated'')]\<rparr>"
  using assms by (cases msg) (simp_all add: on_message_def ws_send_def)

theorem unauthenticated_rejected_witness:
  "pinConfig w_locked = Some (''1234'', 4) \<and> \<not> isAuthenticated (conns w_locked 7) \<and>
   on_message e_ex 7 (Some (CCreate None)) w_locked =
     w_locked\<lparr>outbox := outbox w_locked @ [(7, SError ''Not authenticated'')]\<rparr>"
proof -
  have a: "\<not> isAuthenticated (conns w_locked 7)"
    by (simp add: w_locked_def w_gone_def)
  have b: "\<forall>pin. CCreate None \<noteq> CAuth pin"
    by simp
  have c: "pinConfig w_locked = Some (''1234'', 4)"
    by (simp add: w_locked_def w_gone_def)
  show ?thesis
    using a c unauthenticated_rejected [OF a b, of e_ex] by simp
qed

text \<open>
  Claim C10. For an id the session table does not hold, \<^verbatim>\<open>terminateSession\<close>,
  \<^verbatim>\<open>reactivateSession\<close> and \<^verbatim>\<open>deleteSession\<close> return false and leave the state as it
  was, and the \<^verbatim>\<open>terminate\<close>, \<^verbatim>\<open>reactivate\<close> and \<^verbatim>\<open>delete\<close> messages of an
  authenticated connection leave the whole state unchanged: no error is sent, no session
  list is broadcast.
\<close>
theorem unknown_id_is_silent_noop:
  assumes "map_of (sessions w) i = None"
  shows "terminateSession w i = (False, w) \<and>
         reactivateSession w i ok = (False, w) \<and>
         deleteSession w i = (False, w) \<and>
         (isAuthenticated (conns w c) \<longrightarrow>
            on_message e c (Some (CTerminate i)) w = w \<and>
            on_message e c (Some (CReactivate i)) w = w \<and>
            on_message e c (Some (CDelete i)) w = w)"
  using assms
  by (simp add: terminateSession_def reactivateSession_def deleteSession_def on_message_def
        terminate_handler_def reactivate_handler_def delete_handler_def)

theorem unknown_id_is_silent_noop_witness:
  "map_of (sessions w_running) ''zzzz0000'' = None \<and> isAuthenticated (conns w_running 7) \<and>
   terminateSession w_running ''zzzz0000'' = (False, w_running) \<and>
   on_message e_ex 7 (Some (CDelete ''zzzz0000'')) w_running = w_running"
proof -
  have a: "map_of (sessions w_running) ''zzzz0000'' = None"
    by (simp add: w_running_def)
  have b: "isAuthenticated (conns w_running 7)"
    by (simp add: w_running_def)
  show ?thesis
    using a b unknown_id_is_silent_noop [OF a, of True 7 e_ex] by simp
qed

subsection \<open>The session list\<close>

lemma list_entry_proj [simp]:
  "e_id (list_entry w p) = fst p"
  "e_name (list_entry w p) = name (heap w (snd p))"
  "e_status (list_entry w p) = status (heap w (snd p))"
  "e_createdAt (list_entry w p) = createdAt (heap w (snd p))"
  by (cases p; simp)+

text \<open>
  Claim C8. In every state \<^verbatim>\<open>getSessionList\<close> returns one entry for each binding of
  the session table, carrying the id of the binding and the name, status and
  \<open>createdAt\<close> of the session object bound to it, and nothing else; the list is in
  ascending order of \<open>createdAt\<close>, and the ids of sessions with equal \<open>createdAt\<close>
  come in the order of the table.
\<close>

theorem session_list_sorted_by_createdAt:
  "sorted (map e_createdAt (getSessionList w)) \<and>
   mset (map (\<lambda>x. (e_id x, e_name x, e_status x, e_createdAt x)) (getSessionList w)) =
     mset (map (\<lambda>(i, ref). (i, name (heap w ref), status (heap w ref), createdAt (heap w ref)))
             (sessions w)) \<and>
   (\<forall>k. map e_id (filter (\<lambda>x. e_createdAt x = k) (getSessionList w)) =
        map fst (filter (\<lambda>(i, ref). createdAt (heap w ref) = k) (sessions w)))"
proof -
  have a: "sorted (map e_createdAt (getSessionList w))"
    by (simp add: getSessionList_def)
  have l: "map (\<lambda>x. (e_id x, e_name x, e_status x, e_createdAt x)) (map (list_entry w) (sessions w)) =
        map (\<lambda>(i, ref). (i, name (heap w ref), status (heap w ref), createdAt (heap w ref)))
          (sessions w)"
    by (simp add: case_prod_beta')
  have "mset (getSessionList w) = mset (map (list_entry w) (sessions w))"
    by (simp add: getSessionList_def)
  then have "mset (map (\<lambda>x. (e_id x, e_name x, e_status x, e_createdAt x)) (getSessionList w)) =
     mset (map (\<lambda>x. (e_id x, e_name x, e_status x, e_createdAt x)) (map (list_entry w) (sessions w)))"
    by (simp only: mset_map)
  then have b: "mset (map (\<lambda>x. (e_id x, e_name x, e_status x, e_createdAt x)) (getSessionList w)) =
     mset (map (\<lambda>(i, ref). (i, name (heap w ref), status (heap w ref), createdAt (heap w ref)))
             (sessions w))"
    by (simp only: l)
  have c: "map e_id (filter (\<lambda>x. e_createdAt x = k) (getSessionList w)) =
        map fst (filter (\<lambda>(i, ref). createdAt (heap w ref) = k) (sessions w))" for k
  proof -
    have "filter (\<lambda>x. e_createdAt x = k) (getSessionList w) =
          filter (\<lambda>x. e_createdAt x = k) (map (list_entry w) (sessions w))"
      by (simp add: getSessionList_def sort_key_stable)
    also have "\<dots> = map (list_entry w) (filter (\<lambda>(i, ref). createdAt (heap w ref) = k) (sessions w))"
      by (simp add: filter_map comp_def case_prod_beta')
    finally show ?thesis
      by (simp add: comp_def case_prod_beta')
  qed
  from a b c show ?thesis by blast
qed

subsection \<open>Effects of the session manager operations\<close>

lemma createSession_failed: "createSession w r nm False t = (None, w)"
  by (simp add: createSession_def createDtachSession_def)

lemma createSession_ok:
  "fst (createSession w r nm True t) = Some (generateId r)"
  "map_of (sessions (snd (createSession w r nm True t))) (generateId r) = Some (next_ref w)"
  "heap (snd (createSession w r nm True t)) (next_ref w) =
     \<lparr>pty = None, buffer = [], status = Detached,
      name = (case truthy_str nm of
                Some n \<Rightarrow> n
              | None \<Rightarrow> ''Session '' @ show_nat (length (sessions w) + 1)),
      createdAt = t, clients = []\<rparr>"
  "sockets (snd (createSession w r nm True t)) = insert (generateId r) (sockets w)"
  "i \<noteq> generateId r \<Longrightarrow>
     map_of (sessions (snd (createSession w r nm True t))) i = map_of (sessions w) i"
  "ref \<noteq> next_ref w \<Longrightarrow> heap (snd (createSession w r nm True t)) ref = heap w ref"
  by (simp_all add: createSession_def createDtachSession_def new_object_def Let_def update_conv'
        split: option.splits)

lemma terminateSession_known:
  assumes "map_of (sessions w) i = Some ref"
  shows "fst (terminateSession w i)"
    "sessions (snd (terminateSession w i)) = sessions w"
    "status (heap (snd (terminateSession w i)) ref) = Terminated"
    "pty (heap (snd (terminateSession w i)) ref) = None"
    "buffer (heap (snd (terminateSession w i)) x) = buffer (heap w x)"
    "name (heap (snd (terminateSession w i)) x) = name (heap w x)"
    "clients (heap (snd (terminateSession w i)) x) = clients (heap w x)"
    "sockets (snd (terminateSession w i)) = sockets w"
    "conns (snd (terminateSession w i)) = conns w"
  using assms
  by (simp_all add: terminateSession_def Let_def upd_session_def killDtachSocket_def send_open_eq
        split: option.splits)

lemma reactivateSession_ok:
  assumes "map_of (sessions w) i = Some ref" and "status (heap w ref) = Terminated"
  shows "fst (reactivateSession w i True)"
    "sessions (snd (reactivateSession w i True)) = sessions w"
    "status (heap (snd (reactivateSession w i True)) ref) = Detached"
    "pty (heap (snd (reactivateSession w i True)) x) = pty (heap w x)"
    "buffer (heap (snd (reactivateSession w i True)) x) = buffer (heap w x)"
    "name (heap (snd (reactivateSession w i True)) x) = name (heap w x)"
    "sockets (snd (reactivateSession w i True)) = insert i (sockets w)"
  using assms
  by (simp_all add: reactivateSession_def Let_def upd_session_def createDtachSession_def send_open_eq)

lemma attach_handler_known:
  assumes "map_of (sessions w) i = Some ref"
  shows "c \<in> set (clients (heap (attach_handler c i w) ref))"
    "sessions (attach_handler c i w) = sessions w"
    "status (heap (attach_handler c i w) ref) =
       (if pty (heap w ref) = None \<and> status (heap w ref) \<noteq> Terminated
        then (if i \<in> sockets w then Running else Terminated)
        else status (heap w ref))"
    "\<exists>bc. (\<forall>m \<in> set bc. \<exists>l. snd m = SSessions l) \<and>
          outbox (attach_handler c i w) =
            outbox w @ bc @
            (c, SAttached i (name (heap w ref)) (status (heap (attach_handler c i w) ref))) #
            (if buffer (heap w ref) = [] then []
             else [(c, SHistory i (buffer (heap w ref)))])"
  using assms
  by (auto simp add: attach_handler_def Let_def upd_session_def ws_send_def attachToDtach_def
        socketExists_def broadcast_outbox split: option.splits)


subsection \<open>Create\<close>

text \<open>
  Two draws can give the same id, and an id can also come from a record file. In
  \<open>w_gone\<close> the table holds the terminated session \<^verbatim>\<open>k3x9ab12\<close>; a call whose draw is
  \<^verbatim>\<open>0.k3x9ab12zz\<close> returns this very id and binds it to a new object.
\<close>

theorem create_no_collision_check_counterexample:
  "map_of (sessions w_gone) ''k3x9ab12'' = Some 0 \<and>
   generateId ''0.k3x9ab12zz'' = ''k3x9ab12'' \<and>
   fst (createSession w_gone ''0.k3x9ab12zz'' None True 2000) = Some ''k3x9ab12'' \<and>
   map_of (sessions (snd (createSession w_gone ''0.k3x9ab12zz'' None True 2000))) ''k3x9ab12''
     = Some 1"
proof -
  have g: "generateId ''0.k3x9ab12zz'' = ''k3x9ab12''"
    by (simp add: generateId_def)
  have n: "next_ref w_gone = 1"
    by (simp add: w_gone_def)
  have m: "map_of (sessions w_gone) ''k3x9ab12'' = Some 0"
    by (simp add: w_gone_def)
  show ?thesis
    using g n m createSession_ok(1,2) [of w_gone "''0.k3x9ab12zz''" None 2000] by simp
qed

text \<open>
  Claim C1, amended. \<^verbatim>\<open>createSession\<close> takes the id \<^verbatim>\<open>generateId\<close> draws and does not
  compare it with the session table. When the dtach launch fails it returns \<^verbatim>\<open>null\<close>
  and the state is what it was: no session is added and nothing is written. When the
  launch succeeds it returns the drawn id and binds it to a new session object, Detached
  and with an empty buffer; the bindings of all other ids and all other session objects
  stay as they were.
\<close>

theorem create_uses_drawn_id:
  "createSession w r nm False t = (None, w) \<and>
   fst (createSession w r nm True t) = Some (generateId r) \<and>
   map_of (sessions (snd (createSession w r nm True t))) (generateId r) = Some (next_ref w) \<and>
   heap (snd (createSession w r nm True t)) (next_ref w) =
     \<lparr>pty = None, buffer = [], status = Detached,
      name = (case truthy_str nm of
                Some n \<Rightarrow> n
              | None \<Rightarrow> ''Session '' @ show_nat (length (sessions w) + 1)),
      createdAt = t, clients = []\<rparr> \<and>
   (\<forall>i. i \<noteq> generateId r \<longrightarrow>
      map_of (sessions (snd (createSession w r nm True t))) i = map_of (sessions w) i) \<and>
   (\<forall>ref. ref \<noteq> next_ref w \<longrightarrow> heap (snd (createSession w r nm True t)) ref = heap w ref)"
  by (simp add: createSession_failed createSession_ok)

theorem create_uses_drawn_id_witness:
  "createSession w_created ''0.zz00zz00'' None False 2000 = (None, w_created) \<and>
   fst (createSession w_created ''0.zz00zz00'' None True 2000) = Some ''zz00zz00'' \<and>
   ''k3x9ab12'' \<noteq> generateId ''0.zz00zz00'' \<and>
   map_of (sessions (snd (createSession w_created ''0.zz00zz00'' None True 2000))) ''k3x9ab12''
     = Some 0 \<and>
   0 \<noteq> next_ref w_created \<and>
   status (heap (snd (createSession w_created ''0.zz00zz00'' None True 2000)) 0) = Detached"
proof -
  have g: "generateId ''0.zz00zz00'' = ''zz00zz00''"
    by (simp add: generateId_def)
  have n: "next_ref w_created = 1"
    by (simp add: w_created_def)
  have m: "map_of (sessions w_created) ''k3x9ab12'' = Some 0"
    by (simp add: w_created_def)
  have s: "status (heap w_created 0) = Detached"
    by (simp add: w_created_def)
  show ?thesis
    using g n m s create_uses_drawn_id [of w_created "''0.zz00zz00''" None 2000] by simp
qed

subsection \<open>Attach\<close>



subsection \<open>The round trip\<close>

text \<open>
  The five steps of the round trip run back to back, with nothing in between: from any
  state, \<^verbatim>\<open>createSession\<close> with a launch that succeeds, the output \<^verbatim>\<open>abc\<close> written
  to the new session object, \<^verbatim>\<open>terminateSession\<close>, \<^verbatim>\<open>reactivateSession\<close> with a launch
  that succeeds, then the \<^verbatim>\<open>attach\<close> handler. On this schedule the buffer is kept
  and the statuses are Terminated, Detached and Running.
\<close>

lemma round_trip_back_to_back:
  "(let i = generateId r;
        n = next_ref w;
        w1 = snd (createSession w r nm True t);
        w2 = onData i n ''abc'' w1;
        w3 = snd (terminateSession w2 i);
        w4 = snd (reactivateSession w3 i True);
        w5 = attach_handler c i w4
    in fst (createSession w r nm True t) = Some i \<and>
       map_of (sessions w1) i = Some n \<and>
       map_of (sessions w5) i = Some n \<and>
       buffer (heap w2 n) = ''abc'' \<and>
       fst (terminateSession w2 i) \<and>
       status (heap w3 n) = Terminated \<and>
       buffer (heap w3 n) = ''abc'' \<and>
       fst (reactivateSession w3 i True) \<and>
       status (heap w4 n) = Detached \<and>
       buffer (heap w4 n) = ''abc'' \<and>
       status (heap w5 n) = Running \<and>
       (\<exists>bc. (\<forall>m \<in> set bc. \<exists>l. snd m = SSessions l) \<and>
          outbox w5 = outbox w4 @ bc @
            [(c, SAttached i (name (heap w1 n)) Running), (c, SHistory i ''abc'')]))"
proof -
  define i where "i = generateId r"
  define n where "n = next_ref w"
  define w1 where "w1 = snd (createSession w r nm True t)"
  define w2 where "w2 = onData i n ''abc'' w1"
  define w3 where "w3 = snd (terminateSession w2 i)"
  define w4 where "w4 = snd (reactivateSession w3 i True)"
  define w5 where "w5 = attach_handler c i w4"
  have c0: "fst (createSession w r nm True t) = Some i"
    by (simp add: i_def createSession_ok)
  have m1: "map_of (sessions w1) i = Some n"
    by (simp add: w1_def i_def n_def createSession_ok)
  have h1: "pty (heap w1 n) = None" "buffer (heap w1 n) = []"
    by (simp_all add: w1_def n_def createSession_ok)
  have m2: "map_of (sessions w2) i = Some n"
    by (simp add: w2_def m1)
  have b2: "buffer (heap w2 n) = ''abc''"
    by (simp add: w2_def buffer_onData h1 slice_last_def MAX_BUFFER_SIZE_def)
  have n2: "name (heap w2 n) = name (heap w1 n)"
    by (simp add: w2_def)
  have t3: "fst (terminateSession w2 i)"
    by (rule terminateSession_known(1) [OF m2])
  have m3: "map_of (sessions w3) i = Some n"
    by (simp add: w3_def terminateSession_known(2) [OF m2] m2)
  have s3: "status (heap w3 n) = Terminated" "pty (heap w3 n) = None"
    by (simp_all add: w3_def terminateSession_known(3,4) [OF m2])
  have b3: "buffer (heap w3 n) = ''abc''" "name (heap w3 n) = name (heap w1 n)"
    by (simp_all add: w3_def terminateSession_known(5,6) [OF m2] b2 n2)
  have r4: "fst (reactivateSession w3 i True)"
    by (rule reactivateSession_ok(1) [OF m3 s3(1)])
  have m4: "map_of (sessions w4) i = Some n"
    by (simp add: w4_def reactivateSession_ok(2) [OF m3 s3(1)] m3)
  have s4: "status (heap w4 n) = Detached" "pty (heap w4 n) = None" "i \<in> sockets w4"
    by (simp_all add: w4_def reactivateSession_ok(3,4,7) [OF m3 s3(1)] s3)
  have b4: "buffer (heap w4 n) = ''abc''" "name (heap w4 n) = name (heap w1 n)"
    by (simp_all add: w4_def reactivateSession_ok(5,6) [OF m3 s3(1)] b3)
  have m5: "map_of (sessions w5) i = Some n"
    by (simp add: w5_def attach_handler_known(2) [OF m4] m4)
  have s5: "status (heap w5 n) = Running"
    by (simp add: w5_def attach_handler_known(3) [OF m4] s4)
  have o5: "\<exists>bc. (\<forall>m \<in> set bc. \<exists>l. snd m = SSessions l) \<and>
          outbox w5 = outbox w4 @ bc @
            [(c, SAttached i (name (heap w1 n)) Running), (c, SHistory i ''abc'')]"
    using attach_handler_known(4) [OF m4, of c] s5 by (simp add: w5_def b4)
  show ?thesis
    unfolding Let_def
    using c0 m1 m5 b2 t3 s3(1) b3(1) r4 s4(1) b4(1) s5 o5
    unfolding i_def n_def w1_def w2_def w3_def w4_def w5_def
    by blast
qed

subsection \<open>Terminate\<close>

lemma terminate_running_example:
  "snd (terminateSession w_running ''k3x9ab12'') =
     w_running
       \<lparr>heap := (\<lambda>_. blank_session)
          (0 := \<lparr>pty = None, buffer = ''abc'', status = Terminated, name = ''Session 1'',
                 createdAt = 1000, clients = [7]\<rparr>),
        pty_calls := [(0, Kill)],
        timers := [''k3x9ab12''],
        files := [(''k3x9ab12.json'',
                   Some \<lparr>r_id = ''k3x9ab12'', r_name = ''Session 1'', r_buffer = ''abc'',
                         r_status = ''terminated'', r_createdAt = 1000\<rparr>)],
        outbox := [(7, STerminated ''k3x9ab12'')]\<rparr>"
  by (simp add: terminateSession_def w_running_def Let_def upd_session_def killDtachSocket_def
        socketExists_def saveSession_def getSessionFilePath_def send_open_eq)

text \<open>
  Claim C2, on the running session of \<open>w_running\<close>. \<^verbatim>\<open>terminateSession\<close> kills the
  handle, sets the status to Terminated and arms the delayed unlink of the socket file.
  The exit notification of the killed handle arrives while the socket file is still
  there: \<^verbatim>\<open>onExit\<close> sets the status to Detached, writes \<^verbatim>\<open>detached\<close> to the record file
  and broadcasts a session list that says Detached; the unlink that follows changes
  nothing of that.
\<close>

theorem exit_after_terminate_sets_detached:
  "status (heap w_running 0) = Running \<and>
   pty (heap w_running 0) = Some 0 \<and>
   fst (terminateSession w_running ''k3x9ab12'') \<and>
   pty_calls (snd (terminateSession w_running ''k3x9ab12'')) = [(0, Kill)] \<and>
   status (heap (snd (terminateSession w_running ''k3x9ab12'')) 0) = Terminated \<and>
   timers (snd (terminateSession w_running ''k3x9ab12'')) = [''k3x9ab12''] \<and>
   status (heap (pty_exit 0 (snd (terminateSession w_running ''k3x9ab12''))) 0) = Detached \<and>
   map_of (files (pty_exit 0 (snd (terminateSession w_running ''k3x9ab12'')))) ''k3x9ab12.json'' =
     Some (Some \<lparr>r_id = ''k3x9ab12'', r_name = ''Session 1'', r_buffer = ''abc'',
                 r_status = ''detached'', r_createdAt = 1000\<rparr>) \<and>
   getSessionList (pty_exit 0 (snd (terminateSession w_running ''k3x9ab12''))) =
     [\<lparr>e_id = ''k3x9ab12'', e_name = ''Session 1'', e_status = Detached, e_createdAt = 1000\<rparr>] \<and>
   status (heap (timer_fire (pty_exit 0 (snd (terminateSession w_running ''k3x9ab12'')))) 0)
     = Detached"
proof -
  have a: "status (heap w_running 0) = Running" "pty (heap w_running 0) = Some 0"
    "map_of (sessions w_running) ''k3x9ab12'' = Some 0"
    by (simp_all add: w_running_def)
  have b: "fst (terminateSession w_running ''k3x9ab12'')"
    by (rule terminateSession_known(1) [OF a(3)])
  have c: "status (heap (pty_exit 0 (snd (terminateSession w_running ''k3x9ab12''))) 0) = Detached"
    "map_of (files (pty_exit 0 (snd (terminateSession w_running ''k3x9ab12'')))) ''k3x9ab12.json'' =
     Some (Some \<lparr>r_id = ''k3x9ab12'', r_name = ''Session 1'', r_buffer = ''abc'',
                 r_status = ''detached'', r_createdAt = 1000\<rparr>)"
    "getSessionList (pty_exit 0 (snd (terminateSession w_running ''k3x9ab12''))) =
     [\<lparr>e_id = ''k3x9ab12'', e_name = ''Session 1'', e_status = Detached, e_createdAt = 1000\<rparr>]"
    "status (heap (timer_fire (pty_exit 0 (snd (terminateSession w_running ''k3x9ab12'')))) 0)
     = Detached"
    unfolding terminate_running_example
    by (simp_all add: w_running_def pty_exit_def onExit_def Let_def
          upd_session_def socketExists_def saveSession_def getSessionFilePath_def
          broadcastSessionList_def send_open_eq getSessionList_def timer_fire_def)
  show ?thesis
    using a b c unfolding terminate_running_example by simp
qed

subsection \<open>The round trip after terminate\<close>

lemma exit_then_timer_example:
  "w_exited =
     w_running
       \<lparr>heap := (\<lambda>_. blank_session)
          (0 := \<lparr>pty = None, buffer = ''abc'', status = Detached, name = ''Session 1'',
                 createdAt = 1000, clients = [7]\<rparr>),
        pty_calls := [(0, Kill)],
        timers := [],
        sockets := {},
        files := [(''k3x9ab12.json'',
                   Some \<lparr>r_id = ''k3x9ab12'', r_name = ''Session 1'', r_buffer = ''abc'',
                         r_status = ''detached'', r_createdAt = 1000\<rparr>)],
        outbox := [(7, STerminated ''k3x9ab12''),
                   (7, SSessions [\<lparr>e_id = ''k3x9ab12'', e_name = ''Session 1'',
                                    e_status = Detached, e_createdAt = 1000\<rparr>])]\<rparr>"
  unfolding w_exited_def terminate_running_example
  by (simp add: w_running_def pty_exit_def onExit_def Let_def upd_session_def socketExists_def
        saveSession_def getSessionFilePath_def broadcastSessionList_def send_open_eq
        getSessionList_def timer_fire_def)

text \<open>
  Claim C6, on the session of \<open>w_running\<close>: it was created, a client attached, and the
  output \<^verbatim>\<open>abc\<close> was written through the handle. \<^verbatim>\<open>terminateSession\<close> sets the
  status to Terminated; then the killed handle reports its exit, which sets the status
  to Detached, and the delayed unlink removes the socket file (\<open>w_exited\<close>).
  \<^verbatim>\<open>reactivateSession\<close> now returns false and changes nothing, because the status is no
  longer Terminated; the \<^verbatim>\<open>attach\<close> that follows finds the socket gone and sets the
  status to Terminated, not Running. The history it replays is still \<^verbatim>\<open>abc\<close>.
\<close>

theorem round_trip_ends_terminated:
  "status (heap w_running 0) = Running \<and>
   buffer (heap w_running 0) = ''abc'' \<and>
   fst (terminateSession w_running ''k3x9ab12'') \<and>
   status (heap (snd (terminateSession w_running ''k3x9ab12'')) 0) = Terminated \<and>
   status (heap w_exited 0) = Detached \<and>
   ''k3x9ab12'' \<notin> sockets w_exited \<and>
   reactivateSession w_exited ''k3x9ab12'' True = (False, w_exited) \<and>
   status (heap (attach_handler 7 ''k3x9ab12'' w_exited) 0) = Terminated \<and>
   outbox (attach_handler 7 ''k3x9ab12'' w_exited) =
     outbox w_exited @
     [(7, SSessions [\<lparr>e_id = ''k3x9ab12'', e_name = ''Session 1'',
                      e_status = Terminated, e_createdAt = 1000\<rparr>]),
      (7, SAttached ''k3x9ab12'' ''Session 1'' Terminated),
      (7, SHistory ''k3x9ab12'' ''abc'')]"
proof -
  have a: "status (heap w_running 0) = Running" "buffer (heap w_running 0) = ''abc''"
    "map_of (sessions w_running) ''k3x9ab12'' = Some 0"
    by (simp_all add: w_running_def)
  have b: "fst (terminateSession w_running ''k3x9ab12'')"
    "status (heap (snd (terminateSession w_running ''k3x9ab12'')) 0) = Terminated"
    by (simp_all add: terminateSession_known(1,3) [OF a(3)])
  have c: "status (heap w_exited 0) = Detached" "''k3x9ab12'' \<notin> sockets w_exited"
    "map_of (sessions w_exited) ''k3x9ab12'' = Some 0"
    unfolding exit_then_timer_example by (simp_all add: w_running_def)
  have d: "reactivateSession w_exited ''k3x9ab12'' True = (False, w_exited)"
    using c(1,3) by (simp add: reactivateSession_def)
  have e: "status (heap (attach_handler 7 ''k3x9ab12'' w_exited) 0) = Terminated"
    "outbox (attach_handler 7 ''k3x9ab12'' w_exited) =
     outbox w_exited @
     [(7, SSessions [\<lparr>e_id = ''k3x9ab12'', e_name = ''Session 1'',
                      e_status = Terminated, e_createdAt = 1000\<rparr>]),
      (7, SAttached ''k3x9ab12'' ''Session 1'' Terminated),
      (7, SHistory ''k3x9ab12'' ''abc'')]"
    unfolding exit_then_timer_example
    by (simp_all add: w_running_def attach_handler_def Let_def upd_session_def socketExists_def
          saveSession_def getSessionFilePath_def broadcastSessionList_def send_open_eq
          getSessionList_def ws_send_def set_add_def set_delete_def)
  show ?thesis
    using a(1,2) b c(1,2) d e by simp
qed

text \<open>
  A second schedule, on the session of \<open>w_created\<close>, which never had a handle: the
  unlink that \<^verbatim>\<open>terminateSession\<close> arms runs after \<^verbatim>\<open>reactivateSession\<close> has
  succeeded, removes the socket file of the new launch, and the \<^verbatim>\<open>attach\<close> ends with
  the status Terminated.
\<close>

lemma stale_unlink_example:
  "fst (reactivateSession (snd (terminateSession (onData ''k3x9ab12'' 0 ''abc'' w_created)
          ''k3x9ab12'')) ''k3x9ab12'' True) \<and>
   status (heap (attach_handler 7 ''k3x9ab12''
     (timer_fire (snd (reactivateSession (snd (terminateSession
        (onData ''k3x9ab12'' 0 ''abc'' w_created) ''k3x9ab12'')) ''k3x9ab12'' True)))) 0)
     = Terminated"
proof -
  let ?w2 = "onData ''k3x9ab12'' 0 ''abc'' w_created"
  let ?w3 = "snd (terminateSession ?w2 ''k3x9ab12'')"
  let ?w4 = "snd (reactivateSession ?w3 ''k3x9ab12'' True)"
  have m2: "map_of (sessions ?w2) ''k3x9ab12'' = Some 0"
    by (simp add: w_created_def)
  have p2: "pty (heap ?w2 0) = None" "sockets ?w2 = {''k3x9ab12''}" "timers ?w2 = []"
    by (simp_all add: w_created_def)
  have m3: "map_of (sessions ?w3) ''k3x9ab12'' = Some 0"
    using m2 by (simp add: terminateSession_known(2) [OF m2])
  have s3: "status (heap ?w3 0) = Terminated"
    by (rule terminateSession_known(3) [OF m2])
  have t3: "timers ?w3 = [''k3x9ab12'']"
    using m2 p2 by (simp add: terminateSession_def Let_def upd_session_def killDtachSocket_def
          socketExists_def send_open_eq)
  have r4: "fst (reactivateSession ?w3 ''k3x9ab12'' True)"
    by (rule reactivateSession_ok(1) [OF m3 s3])
  have m4: "map_of (sessions ?w4) ''k3x9ab12'' = Some 0"
    using m3 by (simp add: reactivateSession_ok(2) [OF m3 s3])
  have s4: "status (heap ?w4 0) = Detached" "pty (heap ?w4 0) = None"
    using terminateSession_known(4) [OF m2]
    by (simp_all add: reactivateSession_ok(3,4) [OF m3 s3])
  have t4: "timers ?w4 = [''k3x9ab12'']"
    using m3 s3 t3 by (simp add: reactivateSession_def Let_def upd_session_def
          createDtachSession_def send_open_eq)
  have k4: "sockets ?w4 = {''k3x9ab12''}"
    using p2(2) by (simp add: reactivateSession_ok(7) [OF m3 s3] terminateSession_known(8) [OF m2])
  let ?w5 = "timer_fire ?w4"
  have m5: "map_of (sessions ?w5) ''k3x9ab12'' = Some 0"
    using m4 by (simp add: timer_fire_def t4)
  have s5: "status (heap ?w5 0) = Detached" "pty (heap ?w5 0) = None"
    "''k3x9ab12'' \<notin> sockets ?w5"
    using s4 k4 by (simp_all add: timer_fire_def t4)
  have "status (heap (attach_handler 7 ''k3x9ab12'' ?w5) 0) = Terminated"
    using s5 by (simp add: attach_handler_known(3) [OF m5])
  with r4 show ?thesis by simp
qed

subsection \<open>Resize\<close>

text \<open>
  In \<open>w_running\<close> connection 7 is attached to a session that has a handle. A
  \<^verbatim>\<open>resize\<close> with \<^verbatim>\<open>cols\<close> 0 changes nothing; with \<^verbatim>\<open>cols\<close> 80 it reaches the handle.
\<close>

theorem resize_zero_cols_counterexample:
  "isAuthenticated (conns w_running 7) \<and>
   attachedSession (conns w_running 7) = Some ''k3x9ab12'' \<and>
   map_of (sessions w_running) ''k3x9ab12'' = Some 0 \<and>
   pty (heap w_running 0) = Some 0 \<and>
   on_message e_ex 7 (Some (CResize (Some 0) (Some 24))) w_running = w_running \<and>
   pty_calls (on_message e_ex 7 (Some (CResize (Some 80) (Some 24))) w_running)
     = pty_calls w_running @ [(0, Resize 80 24)]"
  by (simp add: w_running_def on_message_def resize_handler_def)

text \<open>
  Claim C9, amended. For a connection attached to a session of the table, the
  \<^verbatim>\<open>resize\<close> handler calls \<^verbatim>\<open>resize(cols, rows)\<close> on the handle of the session when
  the session has a handle and \<^verbatim>\<open>cols\<close> and \<^verbatim>\<open>rows\<close> are both present and not 0;
  otherwise it does nothing.
\<close>

theorem resize_forwarded_when_truthy:
  assumes "truthy_str (attachedSession (conns w c)) = Some a"
    and "map_of (sessions w) a = Some ref"
  shows "resize_handler c cols rows w =
     (case pty (heap w ref) of
        None \<Rightarrow> w
      | Some p \<Rightarrow>
          (case (cols, rows) of
             (Some x, Some y) \<Rightarrow>
               if x \<noteq> 0 \<and> y \<noteq> 0
               then w\<lparr>pty_calls := pty_calls w @ [(p, Resize x y)]\<rparr>
               else w
           | _ \<Rightarrow> w))"
  using assms
  by (cases cols; cases rows) (simp_all add: resize_handler_def split: option.splits)

theorem resize_forwarded_when_truthy_witness:
  "truthy_str (attachedSession (conns w_running 7)) = Some ''k3x9ab12'' \<and>
   map_of (sessions w_running) ''k3x9ab12'' = Some 0 \<and>
   pty (heap w_running 0) = Some 0 \<and>
   resize_handler 7 (Some 80) (Some 24) w_running =
     w_running\<lparr>pty_calls := pty_calls w_running @ [(0, Resize 80 24)]\<rparr> \<and>
   resize_handler 7 (Some 80) None w_running = w_running"
proof -
  have a: "truthy_str (attachedSession (conns w_running 7)) = Some ''k3x9ab12''"
    by (simp add: w_running_def)
  have b: "map_of (sessions w_running) ''k3x9ab12'' = Some 0"
    by (simp add: w_running_def)
  have c: "pty (heap w_running 0) = Some 0"
    by (simp add: w_running_def)
  show ?thesis
    using a b c resize_forwarded_when_truthy [OF a b, of "Some 80" "Some 24"]
      resize_forwarded_when_truthy [OF a b, of "Some 80" None]
    by simp
qed

subsection \<open>The example states are reachable\<close>

lemma show_nat_1: "show_nat (Suc 0) = ''1''"
  by (simp add: show_nat.simps)

lemma w_created_reachable:
  "(on_message e_ex 7 (Some (CCreate None)) (on_connection 7 w_start))\<lparr>outbox := []\<rparr> = w_created"
  by (simp add: w_start_def e_ex_def on_connection_def set_add_def on_message_def
        create_handler_def createSession_def generateId_def createDtachSession_def
        new_object_def saveSession_def getSessionFilePath_def Let_def show_nat_1
        broadcastSessionList_def send_open_eq ws_send_def getSessionList_def w_created_def)

lemma w_running_reachable:
  "(pty_data 0 ''abc'' (on_message e_ex 7 (Some (CAttach ''k3x9ab12'')) w_created))\<lparr>outbox := []\<rparr>
     = w_running"
  by (simp add: w_created_def e_ex_def on_message_def attach_handler_def Let_def upd_session_def
        socketExists_def attachToDtach_def broadcastSessionList_def send_open_eq ws_send_def
        getSessionList_def set_add_def pty_data_def onData_def MAX_BUFFER_SIZE_def w_running_def)

end
